theory Spec2Isabelle
  imports Complex_Main
begin

section \<open>Numbers and text of the host language\<close>

text \<open>
  The application computes with JavaScript numbers. A finite number is modelled by the
  exact rational it stands for: the binary rounding and the overflow of doubles are not
  part of this model. The three non-finite values are kept, because \<open>parseAmount\<close>
  tests for them.
\<close>

datatype number = NaN | PosInfinity | NegInfinity | Finite rat

text \<open>Strings are lists of code units below 256; \<open>trim\<close> removes the white space
  and line terminators among them.\<close>

definition isWhiteSpace :: "char \<Rightarrow> bool" where
  "isWhiteSpace c =
     (c \<in> set [CHR '' '', CHR 0x09, CHR 0x0A, CHR 0x0B, CHR 0x0C, CHR 0x0D, CHR 0xA0])"

definition trimStart :: "string \<Rightarrow> string" where
  "trimStart s = dropWhile isWhiteSpace s"

definition trim :: "string \<Rightarrow> string" where
  "trim s = rev (dropWhile isWhiteSpace (rev (dropWhile isWhiteSpace s)))"

definition isDigit :: "char \<Rightarrow> bool" where
  "isDigit c = (c \<in> set ''0123456789'')"

definition digitValue :: "char \<Rightarrow> nat" where
  "digitValue c = of_char c - 48"

definition digitsValue :: "string \<Rightarrow> nat" where
  "digitsValue ds = foldl (\<lambda>acc c. 10 * acc + digitValue c) 0 ds"

text \<open>
  \<open>Number.parseFloat\<close>: skip leading white space, then read the longest prefix that is
  a decimal literal (an optional sign, then \<open>Infinity\<close> or digits with an optional
  fraction and an optional exponent); what follows the literal is ignored, and no literal
  at all gives \<open>NaN\<close>. An exponent indicator that no digit follows is not part of the
  literal.
\<close>

fun exponentPart :: "string \<Rightarrow> int" where
  "exponentPart [] = 0"
| "exponentPart (c # cs) =
     (if c = CHR ''e'' \<or> c = CHR ''E'' then
        (case cs of
           [] \<Rightarrow> 0
         | d # ds \<Rightarrow>
             if d = CHR ''+'' then
               (if takeWhile isDigit ds = [] then 0
                else int (digitsValue (takeWhile isDigit ds)))
             else if d = CHR ''-'' then
               (if takeWhile isDigit ds = [] then 0
                else - int (digitsValue (takeWhile isDigit ds)))
             else int (digitsValue (takeWhile isDigit cs)))
      else 0)"

definition scale10 :: "rat \<Rightarrow> int \<Rightarrow> rat" where
  "scale10 m e = (if 0 \<le> e then m * 10 ^ nat e else m / 10 ^ nat (- e))"

definition unsignedLiteral :: "string \<Rightarrow> number" where
  "unsignedLiteral s =
     (if take 8 s = ''Infinity'' then PosInfinity
      else
        let ip = takeWhile isDigit s; r1 = dropWhile isDigit s in
        (case r1 of
           c # r2 \<Rightarrow>
             if c = CHR ''.'' then
               (let fp = takeWhile isDigit r2; r3 = dropWhile isDigit r2 in
                if ip = [] \<and> fp = [] then NaN
                else Finite (scale10 (of_nat (digitsValue (ip @ fp)) / 10 ^ length fp)
                               (exponentPart r3)))
             else if ip = [] then NaN
             else Finite (scale10 (of_nat (digitsValue ip)) (exponentPart r1))
         | [] \<Rightarrow> if ip = [] then NaN else Finite (of_nat (digitsValue ip))))"

definition negate :: "number \<Rightarrow> number" where
  "negate n =
     (case n of
        NaN \<Rightarrow> NaN
      | PosInfinity \<Rightarrow> NegInfinity
      | NegInfinity \<Rightarrow> PosInfinity
      | Finite x \<Rightarrow> Finite (- x))"

definition parseFloat :: "string \<Rightarrow> number" where
  "parseFloat input =
     (case trimStart input of
        [] \<Rightarrow> NaN
      | c # cs \<Rightarrow>
          if c = CHR ''+'' then unsignedLiteral cs
          else if c = CHR ''-'' then negate (unsignedLiteral cs)
          else unsignedLiteral (c # cs))"

text \<open>\<open>Math.round\<close>: the nearest integer, a tie going up.\<close>

definition Math_round :: "rat \<Rightarrow> rat" where
  "Math_round x = of_int \<lfloor>x + 1 / 2\<rfloor>"

section \<open>Data model\<close>

datatype scope = Checking | Savings | Both

text \<open>
  A value that \<open>JSON.parse\<close> returns. What is read back from storage is cast to its
  type without a check, so the name of a restored user is whatever value the stored
  object holds under \<open>name\<close>.
\<close>

datatype json =
  JNull | JBool bool | JNumber rat | JString string | JArray "json list"
  | JObject "(string \<times> json) list"

text \<open>Reading a property (\<open>parsed?.key\<close>): \<open>None\<close> is \<open>undefined\<close>.\<close>

definition getProp :: "json \<Rightarrow> string \<Rightarrow> json option" where
  "getProp v key = (case v of JObject kvs \<Rightarrow> map_of kvs key | _ \<Rightarrow> None)"

definition truthy :: "json \<Rightarrow> bool" where
  "truthy v =
     (case v of
        JNull \<Rightarrow> False
      | JBool b \<Rightarrow> b
      | JNumber n \<Rightarrow> n \<noteq> 0
      | JString s \<Rightarrow> s \<noteq> []
      | JArray _ \<Rightarrow> True
      | JObject _ \<Rightarrow> True)"

record User =
  name :: json

record Transaction =
  id_tx :: string
  date :: string
  description :: string
  amount :: rat
  category :: string
  scope :: "scope option"

record BankingData =
  checkingBalance :: rat
  savingsBalance :: rat
  savingsGoal :: "rat option"
  transactions :: "Transaction list"

datatype ModalType =
  transfer | payBills | addMoney | setGoal | settings | editChecking | editSavings | txDetails

datatype direction = checkingToSavings | savingsToChecking

definition SESSION_KEY :: string where
  "SESSION_KEY = ''mpb.session.v1''"

definition DATA_KEY :: string where
  "DATA_KEY = ''mpb.data.v1''"

definition emptyData :: BankingData where
  "emptyData =
     \<lparr>checkingBalance = 0, savingsBalance = 0, savingsGoal = None, transactions = []\<rparr>"

text \<open>
  The state of the \<open>App\<close> component: its state hooks (the two that only steer the layout
  are left out) and the browser's local storage.
\<close>

record App =
  user :: "User option"
  username :: string
  password :: string
  error :: "string option"
  data :: BankingData
  isInitialLoad :: bool
  modal :: "ModalType option"
  modalError :: "string option"
  amountInput :: string
  descriptionInput :: string
  selectedTransaction :: "Transaction option"
  transferDirection :: direction
  localStorage :: "string \<rightharpoonup> string"

definition setData :: "(BankingData \<Rightarrow> BankingData) \<Rightarrow> App \<Rightarrow> App" where
  "setData f s = s\<lparr>data := f (data s)\<rparr>"

definition setModalError :: "string option \<Rightarrow> App \<Rightarrow> App" where
  "setModalError e s = s\<lparr>modalError := e\<rparr>"

definition openModal :: "ModalType \<Rightarrow> App \<Rightarrow> App" where
  "openModal ty s =
     s\<lparr>modal := Some ty, modalError := None, amountInput := [], descriptionInput := [],
       transferDirection := checkingToSavings\<rparr>"

definition closeModal :: "App \<Rightarrow> App" where
  "closeModal s = s\<lparr>modal := None, modalError := None, selectedTransaction := None\<rparr>"

section \<open>Amounts and the transaction recorder\<close>

definition parseAmount :: "string \<Rightarrow> rat option" where
  "parseAmount raw =
     (let cleaned = trim (filter (\<lambda>c. c \<noteq> CHR '','') raw) in
      case parseFloat cleaned of
        Finite n \<Rightarrow> if n \<le> 0 then None else Some (Math_round (n * 100) / 100)
      | _ \<Rightarrow> None)"

text \<open>
  \<open>addTransaction\<close>: \<open>newId\<close> is what \<open>makeId()\<close> returns and \<open>today\<close> what
  \<open>todayISO()\<close> returns for this call; the optional date of the argument comes last.
\<close>

definition addTransaction ::
  "string \<Rightarrow> string \<Rightarrow> string \<Rightarrow> rat \<Rightarrow> string \<Rightarrow> scope option \<Rightarrow> string option \<Rightarrow> App \<Rightarrow> App"
where
  "addTransaction newId today desc amt cat sc dateOpt s =
     (let d = (case dateOpt of Some given \<Rightarrow> given | None \<Rightarrow> today);
          full = \<lparr>id_tx = newId, date = d, description = desc, amount = amt,
                  category = cat, scope = sc\<rparr>
      in setData (\<lambda>prev. prev\<lparr>transactions := take 25 (full # transactions prev)\<rparr>) s)"

definition transactionMatchesScope :: "Transaction \<Rightarrow> scope \<Rightarrow> bool" where
  "transactionMatchesScope tx sc =
     (let s = (case scope tx of Some x \<Rightarrow> x | None \<Rightarrow> Both) in s = Both \<or> s = sc)"

section \<open>Balance operations\<close>

text \<open>
  A handler reads \<open>data\<close> of the state it starts from (the values its closure holds) and
  queues its updates, which are applied in the order they were queued.
\<close>

definition onConfirmTransfer :: "string \<Rightarrow> string \<Rightarrow> App \<Rightarrow> App" where
  "onConfirmTransfer newId today s =
     (let s1 = setModalError None s in
      case parseAmount (amountInput s) of
        None \<Rightarrow> setModalError (Some ''Enter a valid amount.'') s1
      | Some amt \<Rightarrow>
          if transferDirection s = checkingToSavings then
            (if amt > checkingBalance (data s) then
               setModalError (Some ''Not enough funds in Checking.'') s1
             else
               closeModal
                 (addTransaction newId today ''Transfer to Savings'' (- amt) ''Transfer''
                    (Some Both) None
                    (setData (\<lambda>prev. prev
                        \<lparr>checkingBalance := Math_round ((checkingBalance prev - amt) * 100) / 100,
                         savingsBalance := Math_round ((savingsBalance prev + amt) * 100) / 100\<rparr>)
                       s1)))
          else
            (if amt > savingsBalance (data s) then
               setModalError (Some ''Not enough funds in Savings.'') s1
             else
               closeModal
                 (addTransaction newId today ''Transfer to Checking'' amt ''Transfer''
                    (Some Both) None
                    (setData (\<lambda>prev. prev
                        \<lparr>savingsBalance := Math_round ((savingsBalance prev - amt) * 100) / 100,
                         checkingBalance := Math_round ((checkingBalance prev + amt) * 100) / 100\<rparr>)
                       s1))))"

definition onConfirmPayBills :: "string \<Rightarrow> string \<Rightarrow> App \<Rightarrow> App" where
  "onConfirmPayBills newId today s =
     (let s1 = setModalError None s;
          parsed = parseAmount (amountInput s);
          desc = trim (descriptionInput s)
      in
      if desc = [] then setModalError (Some ''Enter a bill name/description.'') s1
      else
        (case parsed of
           None \<Rightarrow> setModalError (Some ''Enter a valid amount.'') s1
         | Some amt \<Rightarrow>
             if amt > checkingBalance (data s) then
               setModalError (Some ''Not enough funds in Checking.'') s1
             else
               closeModal
                 (addTransaction newId today (''Bill Payment: '' @ desc) (- amt) ''Bills''
                    (Some Checking) None
                    (setData (\<lambda>prev. prev
                        \<lparr>checkingBalance := Math_round ((checkingBalance prev - amt) * 100) / 100\<rparr>)
                       s1))))"

definition onConfirmAddMoney :: "string \<Rightarrow> string \<Rightarrow> App \<Rightarrow> App" where
  "onConfirmAddMoney newId today s =
     (let s1 = setModalError None s in
      case parseAmount (amountInput s) of
        None \<Rightarrow> setModalError (Some ''Enter a valid amount.'') s1
      | Some amt \<Rightarrow>
          closeModal
            (addTransaction newId today ''Add Money to Savings'' amt ''Income''
               (Some Savings) None
               (setData (\<lambda>prev. prev
                   \<lparr>savingsBalance := Math_round ((savingsBalance prev + amt) * 100) / 100\<rparr>)
                  s1)))"

definition onConfirmSetGoal :: "string \<Rightarrow> string \<Rightarrow> App \<Rightarrow> App" where
  "onConfirmSetGoal newId today s =
     (let s1 = setModalError None s in
      case parseAmount (amountInput s) of
        None \<Rightarrow> setModalError (Some ''Enter a valid goal amount.'') s1
      | Some amt \<Rightarrow>
          closeModal
            (addTransaction newId today ''Set savings goal'' 0 ''Goal'' (Some Savings) None
               (setData (\<lambda>prev. prev\<lparr>savingsGoal := Some amt\<rparr>) s1)))"

definition onConfirmEditChecking :: "string \<Rightarrow> string \<Rightarrow> App \<Rightarrow> App" where
  "onConfirmEditChecking newId today s =
     (let s1 = setModalError None s in
      case parseAmount (amountInput s) of
        None \<Rightarrow> setModalError (Some ''Enter a valid balance.'') s1
      | Some amt \<Rightarrow>
          let diff = amt - checkingBalance (data s) in
          closeModal
            (setData (\<lambda>prev. prev\<lparr>checkingBalance := amt\<rparr>)
               (addTransaction newId today ''Balance correction'' diff ''Adjustment''
                  (Some Checking) None s1)))"

definition onConfirmEditSavings :: "string \<Rightarrow> string \<Rightarrow> App \<Rightarrow> App" where
  "onConfirmEditSavings newId today s =
     (let s1 = setModalError None s in
      case parseAmount (amountInput s) of
        None \<Rightarrow> setModalError (Some ''Enter a valid balance.'') s1
      | Some amt \<Rightarrow>
          let diff = amt - savingsBalance (data s) in
          closeModal
            (setData (\<lambda>prev. prev\<lparr>savingsBalance := amt\<rparr>)
               (addTransaction newId today ''Balance correction'' diff ''Adjustment''
                  (Some Savings) None s1)))"

section \<open>Sequences of operations\<close>

text \<open>
  One use of a dialog: it is opened, the fields are filled in, and the confirm button is
  pressed. Each operation comes with the identifier and the date its transaction gets.
\<close>

datatype operation =
  Transfer direction string
| PayBill string string
| AddMoney string
| SetGoal string
| EditChecking string
| EditSavings string

fun perform :: "string \<times> string \<times> operation \<Rightarrow> App \<Rightarrow> App" where
  "perform (newId, today, Transfer dir amt) s =
     onConfirmTransfer newId today
       ((openModal transfer s)\<lparr>transferDirection := dir, amountInput := amt\<rparr>)"
| "perform (newId, today, PayBill desc amt) s =
     onConfirmPayBills newId today
       ((openModal payBills s)\<lparr>descriptionInput := desc, amountInput := amt\<rparr>)"
| "perform (newId, today, AddMoney amt) s =
     onConfirmAddMoney newId today ((openModal addMoney s)\<lparr>amountInput := amt\<rparr>)"
| "perform (newId, today, SetGoal amt) s =
     onConfirmSetGoal newId today ((openModal setGoal s)\<lparr>amountInput := amt\<rparr>)"
| "perform (newId, today, EditChecking amt) s =
     onConfirmEditChecking newId today ((openModal editChecking s)\<lparr>amountInput := amt\<rparr>)"
| "perform (newId, today, EditSavings amt) s =
     onConfirmEditSavings newId today ((openModal editSavings s)\<lparr>amountInput := amt\<rparr>)"

text \<open>An operation is accepted when its handler reports no error.\<close>

definition accepted :: "string \<times> string \<times> operation \<Rightarrow> App \<Rightarrow> bool" where
  "accepted ev s = (modalError (perform ev s) = None)"

fun run :: "(string \<times> string \<times> operation) list \<Rightarrow> App \<Rightarrow> App" where
  "run [] s = s"
| "run (ev # evs) s = run evs (perform ev s)"

fun all_accepted :: "(string \<times> string \<times> operation) list \<Rightarrow> App \<Rightarrow> bool" where
  "all_accepted [] s = True"
| "all_accepted (ev # evs) s = (accepted ev s \<and> all_accepted evs (perform ev s))"



text \<open>The state the component starts in, over a given local storage.\<close>

definition initialApp :: "(string \<rightharpoonup> string) \<Rightarrow> App" where
  "initialApp storage =
     \<lparr>user = None, username = [], password = [], error = None, data = emptyData,
      isInitialLoad = True, modal = None, modalError = None, amountInput = [],
      descriptionInput = [], selectedTransaction = None,
      transferDirection = checkingToSavings, localStorage = storage\<rparr>"

text \<open>The ledger of the specification's example: 500 in checking, 1000 in savings.\<close>

definition exampleApp :: App where
  "exampleApp =
     (initialApp Map.empty)
       \<lparr>data := \<lparr>checkingBalance = 500, savingsBalance = 1000, savingsGoal = None,
                 transactions = []\<rparr>\<rparr>"

section \<open>Persistence of the ledger\<close>

text \<open>
  The load effect. \<open>JSON_parse\<close> is the platform's parser, \<open>None\<close> when it throws;
  \<open>asTransactions\<close> is the unchecked cast of the stored array to a transaction list.
  An empty string under the key counts as no record.
\<close>

definition isNumber :: "json option \<Rightarrow> bool" where
  "isNumber v = (case v of Some (JNumber _) \<Rightarrow> True | _ \<Rightarrow> False)"

definition isArray :: "json option \<Rightarrow> bool" where
  "isArray v = (case v of Some (JArray _) \<Rightarrow> True | _ \<Rightarrow> False)"

definition numberOr :: "rat \<Rightarrow> json option \<Rightarrow> rat" where
  "numberOr d v = (case v of Some (JNumber n) \<Rightarrow> n | _ \<Rightarrow> d)"

definition elements :: "json option \<Rightarrow> json list" where
  "elements v = (case v of Some (JArray xs) \<Rightarrow> xs | _ \<Rightarrow> [])"

text \<open>The shape test of the load effect: two numbers and an array.\<close>

definition hasLedgerShape :: "json \<Rightarrow> bool" where
  "hasLedgerShape parsed =
     (isNumber (getProp parsed ''checkingBalance'') \<and>
      isNumber (getProp parsed ''savingsBalance'') \<and>
      isArray (getProp parsed ''transactions''))"

definition data_load_effect ::
  "(string \<Rightarrow> json option) \<Rightarrow> (json list \<Rightarrow> Transaction list) \<Rightarrow> App \<Rightarrow> App"
where
  "data_load_effect JSON_parse asTransactions s =
     (case localStorage s DATA_KEY of
        None \<Rightarrow> s\<lparr>isInitialLoad := False\<rparr>
      | Some raw \<Rightarrow>
          if raw = [] then s\<lparr>isInitialLoad := False\<rparr>
          else
            (case JSON_parse raw of
               None \<Rightarrow>
                 s\<lparr>localStorage := (localStorage s)(DATA_KEY := None),
                   isInitialLoad := False\<rparr>
             | Some parsed \<Rightarrow>
                 if hasLedgerShape parsed then
                   s\<lparr>data :=
                       \<lparr>checkingBalance = numberOr 0 (getProp parsed ''checkingBalance''),
                        savingsBalance = numberOr 0 (getProp parsed ''savingsBalance''),
                        savingsGoal =
                          (if isNumber (getProp parsed ''savingsGoal'')
                           then Some (numberOr 0 (getProp parsed ''savingsGoal''))
                           else None),
                        transactions = asTransactions (elements (getProp parsed ''transactions''))\<rparr>,
                     isInitialLoad := False\<rparr>
                 else s\<lparr>isInitialLoad := False\<rparr>))"

text \<open>The save effect, which runs when \<open>data\<close> or \<open>isInitialLoad\<close> has changed.\<close>

definition data_save_effect :: "(BankingData \<Rightarrow> string) \<Rightarrow> App \<Rightarrow> App" where
  "data_save_effect JSON_stringify s =
     (if isInitialLoad s then s
      else s\<lparr>localStorage := (localStorage s)(DATA_KEY \<mapsto> JSON_stringify (data s))\<rparr>)"

text \<open>
  An instance of the cast for the examples: it reads a stored transaction field by field,
  which on an object the application wrote gives that transaction back.
\<close>

definition textOr :: "string \<Rightarrow> json option \<Rightarrow> string" where
  "textOr d v = (case v of Some (JString x) \<Rightarrow> x | _ \<Rightarrow> d)"

definition asTransaction :: "json \<Rightarrow> Transaction" where
  "asTransaction v =
     \<lparr>id_tx = textOr [] (getProp v ''id''),
      date = textOr [] (getProp v ''date''),
      description = textOr [] (getProp v ''description''),
      amount = numberOr 0 (getProp v ''amount''),
      category = textOr [] (getProp v ''category''),
      scope =
        (let x = textOr [] (getProp v ''scope'') in
         if x = ''checking'' then Some Checking
         else if x = ''savings'' then Some Savings
         else if x = ''both'' then Some Both
         else None)\<rparr>"

section \<open>Session gate\<close>

text \<open>The text \<open>JSON.stringify\<close> gives for the session object of the one user.\<close>

definition sessionText :: string where
  \<open>sessionText = ''{"name":"Admin"}''\<close>

definition onLogin :: "App \<Rightarrow> App" where
  "onLogin s =
     (let s1 = s\<lparr>error := None\<rparr>;
          u = trim (username s);
          p = password s
      in
      if u = [] \<or> p = [] then s1\<lparr>error := Some ''Please enter username and password.''\<rparr>
      else if u \<noteq> ''Admin'' \<or> p \<noteq> ''admin123'' then
        s1\<lparr>error := Some ''Invalid login. Use Admin / admin123.''\<rparr>
      else
        s1\<lparr>localStorage := (localStorage s1)(SESSION_KEY \<mapsto> sessionText),
           user := Some \<lparr>name = JString ''Admin''\<rparr>,
           username := [], password := []\<rparr>)"

definition onLogout :: "App \<Rightarrow> App" where
  "onLogout s = s\<lparr>localStorage := (localStorage s)(SESSION_KEY := None), user := None\<rparr>"

definition session_load_effect :: "(string \<Rightarrow> json option) \<Rightarrow> App \<Rightarrow> App" where
  "session_load_effect JSON_parse s =
     (case localStorage s SESSION_KEY of
        None \<Rightarrow> s
      | Some savedSession \<Rightarrow>
          if savedSession = [] then s
          else
            (case JSON_parse savedSession of
               None \<Rightarrow> s\<lparr>localStorage := (localStorage s)(SESSION_KEY := None)\<rparr>
             | Some parsed \<Rightarrow>
                 (case getProp parsed ''name'' of
                    None \<Rightarrow> s
                  | Some n \<Rightarrow> if truthy n then s\<lparr>user := Some \<lparr>name = n\<rparr>\<rparr> else s)))"

text \<open>
  An instance of the parser for the examples: it reads the texts named here as
  \<open>JSON.parse\<close> does, and is only ever applied to them and to a text that is no JSON.
\<close>

definition parse_known :: "string \<Rightarrow> json option" where
  \<open>parse_known raw =
     (if raw = ''{}'' then Some (JObject [])
      else if raw = ''{"name":"Admin"}'' then Some (JObject [(''name'', JString ''Admin'')])
      else None)\<close>

section \<open>Offline asset cache\<close>

text \<open>
  The service worker's cache storage: the named caches in the order they were created,
  each a map from the URL of a request to the response kept for it. A request is matched
  by its URL. The network is a function that gives the response of a fetch, or \<open>None\<close>
  when the fetch fails. Storing a copy is taken to succeed.
\<close>

record Request =
  http_method :: string
  url :: string
  mode :: string

type_synonym 'r cache = "string \<rightharpoonup> 'r"

type_synonym 'r cache_storage = "(string \<times> 'r cache) list"

definition CACHE_NAME :: string where
  "CACHE_NAME = ''mypersonalbank-cache-v1''"

fun caches_match :: "'r cache_storage \<Rightarrow> string \<Rightarrow> 'r option" where
  "caches_match [] u = None"
| "caches_match ((n, c) # rest) u =
     (case c u of Some r \<Rightarrow> Some r | None \<Rightarrow> caches_match rest u)"

definition caches_open :: "string \<Rightarrow> 'r cache_storage \<Rightarrow> 'r cache_storage" where
  "caches_open n cs = (if n \<in> fst ` set cs then cs else cs @ [(n, Map.empty)])"

definition cache_put :: "string \<Rightarrow> string \<Rightarrow> 'r \<Rightarrow> 'r cache_storage \<Rightarrow> 'r cache_storage" where
  "cache_put n u r cs =
     map (\<lambda>(m, c). if m = n then (m, c(u \<mapsto> r)) else (m, c)) (caches_open n cs)"

text \<open>What the fetch handler does with an event: it leaves it to the browser, or it
  responds with a response or with \<open>undefined\<close>.\<close>

datatype 'r outcome = NotHandled | Responded "'r option"

definition on_fetch ::
  "(Request \<Rightarrow> 'r option) \<Rightarrow> Request \<Rightarrow> 'r cache_storage \<Rightarrow> 'r outcome \<times> 'r cache_storage"
where
  "on_fetch fetch request cs =
     (if http_method request \<noteq> ''GET'' then (NotHandled, cs)
      else
        (case caches_match cs (url request) of
           Some cached \<Rightarrow> (Responded (Some cached), cs)
         | None \<Rightarrow>
             (case fetch request of
                Some response \<Rightarrow>
                  (Responded (Some response), cache_put CACHE_NAME (url request) response cs)
              | None \<Rightarrow>
                  if mode request = ''navigate'' then (Responded (caches_match cs ''/''), cs)
                  else (Responded None, cs))))"

text \<open>For the examples: twenty-six operations that are all accepted from the empty ledger.\<close>

definition example_ops :: "(string \<times> string \<times> operation) list" where
  "example_ops =
     [(''tx-01'', ''2024-05-01'', EditChecking ''500''),
      (''tx-02'', ''2024-05-01'', EditSavings ''1000''),
      (''tx-03'', ''2024-05-01'', Transfer checkingToSavings ''120.50''),
      (''tx-04'', ''2024-05-01'', PayBill ''Electricity'' ''75''),
      (''tx-05'', ''2024-05-01'', AddMoney ''1,000''),
      (''tx-06'', ''2024-05-01'', SetGoal ''5000''),
      (''tx-07'', ''2024-05-01'', Transfer savingsToChecking ''20''),
      (''tx-08'', ''2024-05-01'', PayBill ''Rent'' ''1.25''),
      (''tx-09'', ''2024-05-01'', Transfer checkingToSavings ''2''),
      (''tx-10'', ''2024-05-01'', AddMoney ''10''),
      (''tx-11'', ''2024-05-01'', PayBill ''Rent'' ''1.25''),
      (''tx-12'', ''2024-05-01'', Transfer checkingToSavings ''2''),
      (''tx-13'', ''2024-05-01'', AddMoney ''10''),
      (''tx-14'', ''2024-05-01'', PayBill ''Rent'' ''1.25''),
      (''tx-15'', ''2024-05-01'', Transfer checkingToSavings ''2''),
      (''tx-16'', ''2024-05-01'', AddMoney ''10''),
      (''tx-17'', ''2024-05-01'', PayBill ''Rent'' ''1.25''),
      (''tx-18'', ''2024-05-01'', Transfer checkingToSavings ''2''),
      (''tx-19'', ''2024-05-01'', AddMoney ''10''),
      (''tx-20'', ''2024-05-01'', PayBill ''Rent'' ''1.25''),
      (''tx-21'', ''2024-05-01'', Transfer checkingToSavings ''2''),
      (''tx-22'', ''2024-05-01'', AddMoney ''10''),
      (''tx-23'', ''2024-05-01'', PayBill ''Rent'' ''1.25''),
      (''tx-24'', ''2024-05-01'', Transfer checkingToSavings ''2''),
      (''tx-25'', ''2024-05-01'', AddMoney ''10''),
      (''tx-26'', ''2024-05-01'', PayBill ''Rent'' ''1.25'')]"

text \<open>For the examples: a cache storage that holds the root document, and a network on
  which one script can be fetched and everything else fails.\<close>

definition example_caches :: "string cache_storage" where
  "example_caches = [(CACHE_NAME, [''/'' \<mapsto> ''<html>''])]"

definition example_network :: "Request \<Rightarrow> string option" where
  "example_network request = (if url request = ''/app.js'' then Some ''js'' else None)"

section \<open>Rounding to cents\<close>

lemma floor_numeral_div:
  "\<lfloor>(numeral a :: rat) / numeral b\<rfloor> = numeral a div numeral b"
  using floor_divide_of_int_eq [of "numeral a" "numeral b", where ?'a = rat] by simp

lemmas parse_eval = parseAmount_def parseFloat_def unsignedLiteral_def trim_def trimStart_def
  isWhiteSpace_def isDigit_def digitsValue_def digitValue_def scale10_def Math_round_def
  floor_numeral_div

lemmas handler_defs = setData_def setModalError_def closeModal_def addTransaction_def Let_def











section \<open>Amount parsing\<close>



section \<open>Transfers, bill payments and their refusal\<close>




text \<open>
  Claim C2. Let the amount field parse to \<open>X\<close>. A transfer in either direction with \<open>X\<close>
  above the balance of the account it debits, and a bill payment with \<open>X\<close> above the
  checking balance, report an error message and change nothing else: both balances, the
  goal and the transaction list are as before.
\<close>

theorem debit_over_balance_rejected:
  assumes "parseAmount (amountInput s) = Some X"
  shows
    "(transferDirection s = checkingToSavings \<and> X > checkingBalance (data s) \<longrightarrow>
        onConfirmTransfer newId today s = s\<lparr>modalError := Some ''Not enough funds in Checking.''\<rparr> \<and>
        data (onConfirmTransfer newId today s) = data s) \<and>
     (transferDirection s = savingsToChecking \<and> X > savingsBalance (data s) \<longrightarrow>
        onConfirmTransfer newId today s = s\<lparr>modalError := Some ''Not enough funds in Savings.''\<rparr> \<and>
        data (onConfirmTransfer newId today s) = data s) \<and>
     (X > checkingBalance (data s) \<longrightarrow>
        onConfirmPayBills newId today s =
          s\<lparr>modalError :=
              Some (if trim (descriptionInput s) = [] then ''Enter a bill name/description.''
                    else ''Not enough funds in Checking.'')\<rparr> \<and>
        data (onConfirmPayBills newId today s) = data s)"
  using assms by (simp add: onConfirmTransfer_def onConfirmPayBills_def handler_defs)

theorem debit_over_balance_rejected_witness:
  "parseAmount ''500.01'' = Some (50001 / 100) \<and>
   onConfirmTransfer ''tx-1'' ''2024-05-01'' (exampleApp\<lparr>amountInput := ''500.01''\<rparr>) =
     exampleApp\<lparr>amountInput := ''500.01'', modalError := Some ''Not enough funds in Checking.''\<rparr> \<and>
   onConfirmTransfer ''tx-1'' ''2024-05-01''
       (exampleApp\<lparr>amountInput := ''1000.01'', transferDirection := savingsToChecking\<rparr>) =
     exampleApp\<lparr>amountInput := ''1000.01'', transferDirection := savingsToChecking,
       modalError := Some ''Not enough funds in Savings.''\<rparr> \<and>
   onConfirmPayBills ''tx-1'' ''2024-05-01''
       (exampleApp\<lparr>amountInput := ''500.01'', descriptionInput := ''Rent''\<rparr>) =
     exampleApp\<lparr>amountInput := ''500.01'', descriptionInput := ''Rent'',
       modalError := Some ''Not enough funds in Checking.''\<rparr>"
proof -
  have p: "parseAmount ''500.01'' = Some (50001 / 100)"
    "parseAmount ''1000.01'' = Some (100001 / 100)"
    by (simp_all add: parse_eval)
  have t: "trim ''Rent'' = ''Rent''"
    by (simp add: trim_def isWhiteSpace_def)
  show ?thesis
    using debit_over_balance_rejected [of "exampleApp\<lparr>amountInput := ''500.01''\<rparr>"
        "50001 / 100" "''tx-1''" "''2024-05-01''"]
      debit_over_balance_rejected
        [of "exampleApp\<lparr>amountInput := ''1000.01'', transferDirection := savingsToChecking\<rparr>"
          "100001 / 100" "''tx-1''" "''2024-05-01''"]
      debit_over_balance_rejected
        [of "exampleApp\<lparr>amountInput := ''500.01'', descriptionInput := ''Rent''\<rparr>"
          "50001 / 100" "''tx-1''" "''2024-05-01''"] p t
    by (simp add: exampleApp_def initialApp_def)
qed

text \<open>
  Claim C6. From the ledger with 500 in checking, 1000 in savings, no goal and no
  transactions, paying the bill "Electricity" with the amount text \<open>75\<close>, and likewise
  with \<open>75.004\<close>, succeeds: checking becomes 425, savings stays 1000, and the history
  holds exactly the transaction "Bill Payment: Electricity" with amount \<open>- 75\<close>,
  category Bills and scope checking.
\<close>

theorem pay_bill_example:
  "data (onConfirmPayBills newId today
           (exampleApp\<lparr>descriptionInput := ''Electricity'', amountInput := ''75''\<rparr>)) =
     \<lparr>checkingBalance = 425, savingsBalance = 1000, savingsGoal = None,
      transactions =
        [\<lparr>id_tx = newId, date = today, description = ''Bill Payment: Electricity'',
          amount = - 75, category = ''Bills'', scope = Some Checking\<rparr>]\<rparr> \<and>
   modalError (onConfirmPayBills newId today
           (exampleApp\<lparr>descriptionInput := ''Electricity'', amountInput := ''75''\<rparr>)) = None \<and>
   data (onConfirmPayBills newId today
           (exampleApp\<lparr>descriptionInput := ''Electricity'', amountInput := ''75.004''\<rparr>)) =
     \<lparr>checkingBalance = 425, savingsBalance = 1000, savingsGoal = None,
      transactions =
        [\<lparr>id_tx = newId, date = today, description = ''Bill Payment: Electricity'',
          amount = - 75, category = ''Bills'', scope = Some Checking\<rparr>]\<rparr> \<and>
   modalError (onConfirmPayBills newId today
           (exampleApp\<lparr>descriptionInput := ''Electricity'', amountInput := ''75.004''\<rparr>)) = None"
proof -
  have p: "parseAmount ''75'' = Some 75" "parseAmount ''75.004'' = Some 75"
    by (simp_all add: parse_eval)
  have t: "trim ''Electricity'' = ''Electricity''"
    by (simp add: trim_def isWhiteSpace_def)
  have r: "Math_round 42500 / 100 = 425"
    by (simp add: Math_round_def floor_numeral_div)
  show ?thesis
    using p t r
    by (simp add: onConfirmPayBills_def handler_defs exampleApp_def initialApp_def)
qed

theorem pay_bill_example_witness:
  "transactions (data (onConfirmPayBills ''tx-1'' ''2024-05-01''
           (exampleApp\<lparr>descriptionInput := ''Electricity'', amountInput := ''75''\<rparr>))) =
     [\<lparr>id_tx = ''tx-1'', date = ''2024-05-01'', description = ''Bill Payment: Electricity'',
       amount = - 75, category = ''Bills'', scope = Some Checking\<rparr>] \<and>
   checkingBalance (data (onConfirmPayBills ''tx-1'' ''2024-05-01''
           (exampleApp\<lparr>descriptionInput := ''Electricity'', amountInput := ''75''\<rparr>))) = 425"
  using pay_bill_example [of "''tx-1''" "''2024-05-01''"] by simp

section \<open>Sequences of operations: the history and the balances\<close>

lemmas perform_defs = onConfirmTransfer_def onConfirmPayBills_def onConfirmAddMoney_def
  onConfirmSetGoal_def onConfirmEditChecking_def onConfirmEditSavings_def openModal_def
  handler_defs

lemma take_append_take: "take n (xs @ take n ys) = take n (xs @ ys)"
  by (simp add: min_def)

lemma accepted_records:
  assumes "accepted ev s"
  shows "\<exists>tx. id_tx tx = fst ev \<and>
           transactions (data (perform ev s)) = take 25 (tx # transactions (data s))"
proof -
  obtain newId today op where ev: "ev = (newId, today, op)"
    by (cases ev)
  show ?thesis
    using assms unfolding ev accepted_def
    by (cases op) (auto simp: perform_defs split: option.splits if_splits)
qed

lemma history_ids:
  "all_accepted evs s \<Longrightarrow> length (transactions (data s)) \<le> 25 \<Longrightarrow>
     map id_tx (transactions (data (run evs s))) =
       take 25 (rev (map fst evs) @ map id_tx (transactions (data s)))"
proof (induction evs arbitrary: s)
  case Nil
  then show ?case by simp
next
  case (Cons ev evs)
  then have acc: "accepted ev s" and rest: "all_accepted evs (perform ev s)"
    by simp_all
  from accepted_records [OF acc] obtain tx where
    tx: "id_tx tx = fst ev" "transactions (data (perform ev s)) = take 25 (tx # transactions (data s))"
    by blast
  have len: "length (transactions (data (perform ev s))) \<le> 25"
    by (simp add: tx(2))
  have "map id_tx (transactions (data (run (ev # evs) s))) =
      take 25 (rev (map fst evs) @ map id_tx (transactions (data (perform ev s))))"
    using Cons.IH [OF rest len] by simp
  also have "\<dots> = take 25 (rev (map fst evs) @ take 25 (fst ev # map id_tx (transactions (data s))))"
    using tx by (simp add: take_map)
  also have "\<dots> = take 25 (rev (map fst (ev # evs)) @ map id_tx (transactions (data s)))"
    by (simp only: take_append_take) simp
  finally show ?case .
qed






text \<open>
  Claim C4. The recorder puts each new transaction at the front of the list and keeps the
  first 25 entries. So from a ledger with an empty history, after 26 accepted operations
  the history has exactly 25 entries, most recent first (the identifiers are those of
  the operations 26 down to 2), and the first transaction recorded is gone (no entry
  has its identifier, the identifiers being distinct).
\<close>

theorem history_keeps_latest_25:
  assumes "transactions (data s) = []" and "all_accepted evs s" and "length evs = 26"
  shows
    "length (transactions (data (run evs s))) = 25 \<and>
     map id_tx (transactions (data (run evs s))) = rev (tl (map fst evs)) \<and>
     (distinct (map fst evs) \<longrightarrow>
        (\<forall>tx \<in> set (transactions (data (run evs s))). id_tx tx \<noteq> fst (hd evs))) \<and>
     transactions (data (addTransaction newId today desc amt cat sc dateOpt s')) =
       take 25
         (\<lparr>id_tx = newId, date = (case dateOpt of Some given \<Rightarrow> given | None \<Rightarrow> today),
           description = desc, amount = amt, category = cat, scope = sc\<rparr>
          # transactions (data s'))"
proof -
  let ?ids = "map fst evs"
  have "map id_tx (transactions (data (run evs s))) = take 25 (rev ?ids)"
    using history_ids [OF assms(2)] assms(1) by simp
  also have "\<dots> = rev (drop 1 ?ids)"
    using assms(3) by (simp add: take_rev)
  also have "\<dots> = rev (tl ?ids)"
    by (simp add: drop_Suc)
  finally have ids: "map id_tx (transactions (data (run evs s))) = rev (tl ?ids)" .
  have "length (map id_tx (transactions (data (run evs s)))) = 25"
    using assms(3) by (simp only: ids) simp
  then have len: "length (transactions (data (run evs s))) = 25"
    by simp
  have absent: "\<forall>tx \<in> set (transactions (data (run evs s))). id_tx tx \<noteq> fst (hd evs)"
    if "distinct ?ids"
  proof -
    from assms(3) obtain ev rest where evs: "evs = ev # rest"
      by (cases evs) auto
    with that have "fst ev \<notin> set (map fst rest)"
      by simp
    then have "fst (hd evs) \<notin> set (map id_tx (transactions (data (run evs s))))"
      by (simp only: ids) (simp add: evs)
    then show ?thesis
      by (metis imageI set_map)
  qed
  have rec: "transactions (data (addTransaction newId today desc amt cat sc dateOpt s')) =
       take 25
         (\<lparr>id_tx = newId, date = (case dateOpt of Some given \<Rightarrow> given | None \<Rightarrow> today),
           description = desc, amount = amt, category = cat, scope = sc\<rparr>
          # transactions (data s'))"
    by (simp add: handler_defs)
  from len ids absent rec show ?thesis
    by blast
qed

lemma example_ops_accepted: "all_accepted example_ops (initialApp Map.empty)"
  by (simp add: example_ops_def initialApp_def emptyData_def accepted_def perform_defs parse_eval)

theorem history_keeps_latest_25_witness:
  "all_accepted example_ops (initialApp Map.empty) \<and> length example_ops = 26 \<and>
   distinct (map fst example_ops) \<and>
   length (transactions (data (run example_ops (initialApp Map.empty)))) = 25 \<and>
   map id_tx (transactions (data (run example_ops (initialApp Map.empty)))) =
     [''tx-26'', ''tx-25'', ''tx-24'', ''tx-23'', ''tx-22'', ''tx-21'', ''tx-20'', ''tx-19'', ''tx-18'', ''tx-17'', ''tx-16'', ''tx-15'', ''tx-14'', ''tx-13'', ''tx-12'', ''tx-11'', ''tx-10'', ''tx-09'', ''tx-08'', ''tx-07'', ''tx-06'', ''tx-05'', ''tx-04'', ''tx-03'', ''tx-02''] \<and>
   ''tx-01'' \<notin> id_tx ` set (transactions (data (run example_ops (initialApp Map.empty))))"
proof -
  have e: "transactions (data (initialApp Map.empty)) = []"
    by (simp add: initialApp_def emptyData_def)
  have l: "length example_ops = 26"
    by (simp add: example_ops_def)
  have d: "distinct (map fst example_ops)"
    by (simp add: example_ops_def)
  have m: "rev (tl (map fst example_ops)) =
     [''tx-26'', ''tx-25'', ''tx-24'', ''tx-23'', ''tx-22'', ''tx-21'', ''tx-20'', ''tx-19'', ''tx-18'', ''tx-17'', ''tx-16'', ''tx-15'', ''tx-14'', ''tx-13'', ''tx-12'', ''tx-11'', ''tx-10'', ''tx-09'', ''tx-08'', ''tx-07'', ''tx-06'', ''tx-05'', ''tx-04'', ''tx-03'', ''tx-02'']"
    by (simp add: example_ops_def)
  have h: "fst (hd example_ops) = ''tx-01''"
    by (simp add: example_ops_def)
  show ?thesis
    using history_keeps_latest_25 [OF e example_ops_accepted l,
        where newId = "[]" and today = "[]" and desc = "[]" and amt = 0 and cat = "[]"
          and sc = None and dateOpt = None and s' = "initialApp Map.empty"]
      d l example_ops_accepted
    by (simp only: m h) auto
qed







section \<open>The fetch handler of the service worker\<close>

lemma caches_match_append:
  "caches_match (cs @ ds) u =
     (case caches_match cs u of Some r \<Rightarrow> Some r | None \<Rightarrow> caches_match ds u)"
  by (induction cs u rule: caches_match.induct) (auto split: option.splits)

lemma caches_match_put_other:
  "v \<noteq> u \<Longrightarrow>
     caches_match (map (\<lambda>(m, c). if m = n then (m, c(u \<mapsto> r)) else (m, c)) cs) v =
       caches_match cs v"
  by (induction cs v rule: caches_match.induct) (auto split: option.splits)

lemma caches_match_put_absent:
  "n \<notin> fst ` set cs \<Longrightarrow>
     map (\<lambda>(m, c). if m = n then (m, c(u \<mapsto> r)) else (m, c)) cs = cs"
  by (induction cs) auto

lemma caches_match_put_present:
  "caches_match cs u = None \<Longrightarrow> n \<in> fst ` set cs \<Longrightarrow>
     caches_match (map (\<lambda>(m, c). if m = n then (m, c(u \<mapsto> r)) else (m, c)) cs) u = Some r"
  by (induction cs u rule: caches_match.induct) (auto split: option.splits)

lemma caches_match_put:
  assumes "caches_match cs u = None"
  shows "caches_match (cache_put n u r cs) u = Some r"
proof (cases "n \<in> fst ` set cs")
  case True
  with assms show ?thesis
    by (simp add: cache_put_def caches_open_def caches_match_put_present)
next
  case False
  then have "cache_put n u r cs = cs @ [(n, [u \<mapsto> r])]"
    by (simp add: cache_put_def caches_open_def caches_match_put_absent)
  with assms show ?thesis
    by (simp add: caches_match_append)
qed

lemma caches_match_put_unchanged:
  assumes "v \<noteq> u"
  shows "caches_match (cache_put n u r cs) v = caches_match cs v"
  using assms
  by (simp add: cache_put_def caches_open_def caches_match_put_other caches_match_append
      split: option.splits)

text \<open>
  Claim C10. For a GET request: a cached response for the request is returned when there
  is one; otherwise the response of the network is returned and a copy is stored in the
  cache, where a later match of the same request finds it; when the fetch fails, the
  answer is what the cache holds for the root document if the request is a navigation,
  and no response otherwise.
\<close>

theorem fetch_is_cache_first:
  assumes "http_method request = ''GET''"
  shows
    "(caches_match cs (url request) = Some cached \<longrightarrow>
        on_fetch fetch request cs = (Responded (Some cached), cs)) \<and>
     (caches_match cs (url request) = None \<and> fetch request = Some response \<longrightarrow>
        on_fetch fetch request cs =
          (Responded (Some response), cache_put CACHE_NAME (url request) response cs) \<and>
        caches_match (cache_put CACHE_NAME (url request) response cs) (url request) =
          Some response \<and>
        (\<forall>v. v \<noteq> url request \<longrightarrow>
           caches_match (cache_put CACHE_NAME (url request) response cs) v =
             caches_match cs v)) \<and>
     (caches_match cs (url request) = None \<and> fetch request = None \<longrightarrow>
        on_fetch fetch request cs =
          (Responded (if mode request = ''navigate'' then caches_match cs ''/'' else None), cs))"
  using assms
  by (simp add: on_fetch_def caches_match_put caches_match_put_unchanged)

theorem fetch_is_cache_first_witness:
  "on_fetch example_network \<lparr>http_method = ''GET'', url = ''/'', mode = ''navigate''\<rparr> example_caches =
     (Responded (Some ''<html>''), example_caches) \<and>
   fst (on_fetch example_network \<lparr>http_method = ''GET'', url = ''/app.js'', mode = ''no-cors''\<rparr>
          example_caches) = Responded (Some ''js'') \<and>
   caches_match
     (snd (on_fetch example_network \<lparr>http_method = ''GET'', url = ''/app.js'', mode = ''no-cors''\<rparr>
          example_caches)) ''/app.js'' = Some ''js'' \<and>
   on_fetch example_network \<lparr>http_method = ''GET'', url = ''/accounts'', mode = ''navigate''\<rparr>
       example_caches = (Responded (Some ''<html>''), example_caches) \<and>
   on_fetch example_network \<lparr>http_method = ''GET'', url = ''/logo.png'', mode = ''no-cors''\<rparr>
       example_caches = (Responded None, example_caches)"
proof -
  have m: "caches_match example_caches ''/'' = Some ''<html>''"
    "caches_match example_caches ''/app.js'' = None"
    "caches_match example_caches ''/accounts'' = None"
    "caches_match example_caches ''/logo.png'' = None"
    by (simp_all add: example_caches_def)
  have n: "example_network \<lparr>http_method = ''GET'', url = ''/app.js'', mode = ''no-cors''\<rparr> = Some ''js''"
    "example_network \<lparr>http_method = ''GET'', url = ''/accounts'', mode = ''navigate''\<rparr> = None"
    "example_network \<lparr>http_method = ''GET'', url = ''/logo.png'', mode = ''no-cors''\<rparr> = None"
    by (simp_all add: example_network_def)
  have a: "on_fetch example_network \<lparr>http_method = ''GET'', url = ''/'', mode = ''navigate''\<rparr>
      example_caches = (Responded (Some ''<html>''), example_caches)"
    using fetch_is_cache_first [where request = "\<lparr>http_method = ''GET'', url = ''/'', mode = ''navigate''\<rparr>"
        and cs = example_caches and cached = "''<html>''" and fetch = example_network
        and response = "''js''"] m
    by simp
  have b: "fst (on_fetch example_network \<lparr>http_method = ''GET'', url = ''/app.js'', mode = ''no-cors''\<rparr>
          example_caches) = Responded (Some ''js'')"
    and c: "caches_match
     (snd (on_fetch example_network \<lparr>http_method = ''GET'', url = ''/app.js'', mode = ''no-cors''\<rparr>
          example_caches)) ''/app.js'' = Some ''js''"
    using fetch_is_cache_first [where request = "\<lparr>http_method = ''GET'', url = ''/app.js'', mode = ''no-cors''\<rparr>"
        and cs = example_caches and cached = "''<html>''" and fetch = example_network
        and response = "''js''"] m n
    by simp_all
  have d: "on_fetch example_network \<lparr>http_method = ''GET'', url = ''/accounts'', mode = ''navigate''\<rparr>
       example_caches = (Responded (Some ''<html>''), example_caches)"
    using fetch_is_cache_first [where request = "\<lparr>http_method = ''GET'', url = ''/accounts'', mode = ''navigate''\<rparr>"
        and cs = example_caches and cached = "''<html>''" and fetch = example_network
        and response = "''js''"] m n
    by simp
  have e: "on_fetch example_network \<lparr>http_method = ''GET'', url = ''/logo.png'', mode = ''no-cors''\<rparr>
       example_caches = (Responded None, example_caches)"
    using fetch_is_cache_first [where request = "\<lparr>http_method = ''GET'', url = ''/logo.png'', mode = ''no-cors''\<rparr>"
        and cs = example_caches and cached = "''<html>''" and fetch = example_network
        and response = "''js''"] m n
    by simp
  from a b c d e show ?thesis
    by (simp only: simp_thms)
qed

section \<open>Loading the ledger\<close>

text \<open>
  Claim C7, amended. At load time, with the ledger still empty: when there is no record
  (or an empty one), when the record is not parseable, and when it parses to a value that
  fails the shape test, the ledger stays empty and no error is reported. The load effect
  removes the record from storage only when it is not parseable. A parseable record of
  the wrong shape is ignored: the load effect leaves it in storage, as the counterexample
  shows for the record \<open>{}\<close>, and the save effect that follows overwrites it with the
  empty ledger.
\<close>

theorem load_without_valid_record:
  assumes "data s = emptyData"
  shows
    "(localStorage s DATA_KEY = None \<or> localStorage s DATA_KEY = Some [] \<longrightarrow>
        data_load_effect JSON_parse asTransactions s = s\<lparr>isInitialLoad := False\<rparr>) \<and>
     (localStorage s DATA_KEY = Some raw \<and> raw \<noteq> [] \<and> JSON_parse raw = None \<longrightarrow>
        data_load_effect JSON_parse asTransactions s =
          s\<lparr>localStorage := (localStorage s)(DATA_KEY := None), isInitialLoad := False\<rparr>) \<and>
     (localStorage s DATA_KEY = Some raw \<and> raw \<noteq> [] \<and> JSON_parse raw = Some parsed \<and>
      \<not> hasLedgerShape parsed \<longrightarrow>
        data_load_effect JSON_parse asTransactions s = s\<lparr>isInitialLoad := False\<rparr> \<and>
        localStorage (data_load_effect JSON_parse asTransactions s) DATA_KEY = Some raw \<and>
        localStorage
          (data_save_effect JSON_stringify (data_load_effect JSON_parse asTransactions s))
          DATA_KEY = Some (JSON_stringify emptyData)) \<and>
     ((localStorage s DATA_KEY = None \<or> localStorage s DATA_KEY = Some [] \<or>
       (\<exists>text. localStorage s DATA_KEY = Some text \<and>
          (case JSON_parse text of None \<Rightarrow> True | Some v \<Rightarrow> \<not> hasLedgerShape v))) \<longrightarrow>
        data (data_load_effect JSON_parse asTransactions s) = emptyData \<and>
        error (data_load_effect JSON_parse asTransactions s) = error s \<and>
        modalError (data_load_effect JSON_parse asTransactions s) = modalError s)"
  using assms
  by (auto simp: data_load_effect_def data_save_effect_def split: option.splits)

theorem load_without_valid_record_witness:
  \<open>data_load_effect parse_known (map asTransaction) (initialApp Map.empty) =
     (initialApp Map.empty)\<lparr>isInitialLoad := False\<rparr> \<and>
   data_load_effect parse_known (map asTransaction) (initialApp [DATA_KEY \<mapsto> ''{"chec'']) =
     (initialApp Map.empty)\<lparr>isInitialLoad := False\<rparr> \<and>
   data_load_effect parse_known (map asTransaction) (initialApp [DATA_KEY \<mapsto> ''{}'']) =
     (initialApp [DATA_KEY \<mapsto> ''{}''])\<lparr>isInitialLoad := False\<rparr> \<and>
   data (data_load_effect parse_known (map asTransaction) (initialApp [DATA_KEY \<mapsto> ''{}''])) =
     emptyData\<close>
proof -
  have d: "data (initialApp st) = emptyData" for st
    by (simp add: initialApp_def)
  have k: \<open>parse_known ''{"chec'' = None\<close> "parse_known ''{}'' = Some (JObject [])"
    "\<not> hasLedgerShape (JObject [])"
    by (simp_all add: parse_known_def hasLedgerShape_def getProp_def isNumber_def)
  have a: "data_load_effect parse_known (map asTransaction) (initialApp Map.empty) =
     (initialApp Map.empty)\<lparr>isInitialLoad := False\<rparr>"
    using load_without_valid_record [OF d, where st1 = Map.empty and JSON_parse = parse_known
        and asTransactions = "map asTransaction"]
    by (simp add: initialApp_def)
  have b: \<open>data_load_effect parse_known (map asTransaction) (initialApp [DATA_KEY \<mapsto> ''{"chec'']) =
     (initialApp Map.empty)\<lparr>isInitialLoad := False\<rparr>\<close>
    using load_without_valid_record [OF d, where st1 = \<open>[DATA_KEY \<mapsto> ''{"chec'']\<close>
        and JSON_parse = parse_known and asTransactions = "map asTransaction"
        and raw = \<open>''{"chec''\<close>] k
    by (simp add: initialApp_def)
  have c: "data_load_effect parse_known (map asTransaction) (initialApp [DATA_KEY \<mapsto> ''{}'']) =
      (initialApp [DATA_KEY \<mapsto> ''{}''])\<lparr>isInitialLoad := False\<rparr>"
    using load_without_valid_record [OF d, where st1 = "[DATA_KEY \<mapsto> ''{}'']"
        and JSON_parse = parse_known and asTransactions = "map asTransaction"
        and raw = "''{}''" and parsed = "JObject []"] k
    by (simp add: initialApp_def)
  have e: "data (data_load_effect parse_known (map asTransaction)
      (initialApp [DATA_KEY \<mapsto> ''{}''])) = emptyData"
    by (simp only: c) (simp add: initialApp_def)
  from a b c e show ?thesis
    by (simp only: simp_thms)
qed

theorem wrong_shape_kept_counterexample:
  "data (data_load_effect parse_known (map asTransaction) (initialApp [DATA_KEY \<mapsto> ''{}''])) =
     emptyData \<and>
   localStorage (data_load_effect parse_known (map asTransaction) (initialApp [DATA_KEY \<mapsto> ''{}'']))
     DATA_KEY = Some ''{}'' \<and>
   localStorage (data_load_effect parse_known (map asTransaction) (initialApp [DATA_KEY \<mapsto> ''{}'']))
     DATA_KEY \<noteq> None"
  by (simp add: data_load_effect_def initialApp_def parse_known_def hasLedgerShape_def
      getProp_def isNumber_def)

section \<open>Logging in\<close>

text \<open>
  Claim C8, amended. A login succeeds exactly when the trimmed user name is \<open>Admin\<close> and
  the password is \<open>admin123\<close>. On success the session marker is stored, and a component
  that starts over that storage restores the user (the parser reading the stored text
  back). Every other pair fails, stores nothing and leaves the user unset; the message is
  "Please enter username and password." when the trimmed user name or the password is
  empty, and otherwise the one message "Invalid login. Use Admin / admin123.", whichever
  field was wrong. The counterexample shows the two messages.
\<close>

theorem login_gate:
  "(error (onLogin s) = None \<longleftrightarrow> trim (username s) = ''Admin'' \<and> password s = ''admin123'') \<and>
   (trim (username s) = ''Admin'' \<and> password s = ''admin123'' \<longrightarrow>
      user (onLogin s) = Some \<lparr>name = JString ''Admin''\<rparr> \<and>
      localStorage (onLogin s) = (localStorage s)(SESSION_KEY \<mapsto> sessionText) \<and>
      (JSON_parse sessionText = Some (JObject [(''name'', JString ''Admin'')]) \<longrightarrow>
         user (session_load_effect JSON_parse (initialApp (localStorage (onLogin s)))) =
           Some \<lparr>name = JString ''Admin''\<rparr>)) \<and>
   (\<not> (trim (username s) = ''Admin'' \<and> password s = ''admin123'') \<longrightarrow>
      onLogin s =
        s\<lparr>error :=
            Some (if trim (username s) = [] \<or> password s = []
                  then ''Please enter username and password.''
                  else ''Invalid login. Use Admin / admin123.'')\<rparr> \<and>
      localStorage (onLogin s) = localStorage s \<and> user (onLogin s) = user s)"
proof -
  have t: "sessionText \<noteq> []"
    by (simp add: sessionText_def)
  show ?thesis
    using t
    by (auto simp: onLogin_def session_load_effect_def initialApp_def getProp_def truthy_def
        Let_def)
qed

theorem login_gate_witness:
  "error (onLogin ((initialApp Map.empty)\<lparr>username := '' Admin '', password := ''admin123''\<rparr>)) = None \<and>
   user (onLogin ((initialApp Map.empty)\<lparr>username := '' Admin '', password := ''admin123''\<rparr>)) =
     Some \<lparr>name = JString ''Admin''\<rparr> \<and>
   parse_known sessionText = Some (JObject [(''name'', JString ''Admin'')]) \<and>
   user (session_load_effect parse_known
     (initialApp (localStorage
        (onLogin ((initialApp Map.empty)\<lparr>username := '' Admin '', password := ''admin123''\<rparr>))))) =
     Some \<lparr>name = JString ''Admin''\<rparr> \<and>
   onLogin ((initialApp Map.empty)\<lparr>username := ''Admin'', password := ''admin''\<rparr>) =
     (initialApp Map.empty)\<lparr>username := ''Admin'', password := ''admin'',
       error := Some ''Invalid login. Use Admin / admin123.''\<rparr>"
proof -
  have u: "trim '' Admin '' = ''Admin''" "trim ''Admin'' = ''Admin''"
    by (simp_all add: trim_def isWhiteSpace_def)
  have k: "parse_known sessionText = Some (JObject [(''name'', JString ''Admin'')])"
    by (simp add: parse_known_def sessionText_def)
  note ok = login_gate [where s = "(initialApp Map.empty)\<lparr>username := '' Admin '', password := ''admin123''\<rparr>"
      and JSON_parse = parse_known]
  note bad = login_gate [where s = "(initialApp Map.empty)\<lparr>username := ''Admin'', password := ''admin''\<rparr>"
      and JSON_parse = parse_known]
  from ok u k have a:
    "error (onLogin ((initialApp Map.empty)\<lparr>username := '' Admin '', password := ''admin123''\<rparr>)) = None"
    "user (onLogin ((initialApp Map.empty)\<lparr>username := '' Admin '', password := ''admin123''\<rparr>)) =
       Some \<lparr>name = JString ''Admin''\<rparr>"
    "user (session_load_effect parse_known
       (initialApp (localStorage
          (onLogin ((initialApp Map.empty)\<lparr>username := '' Admin '', password := ''admin123''\<rparr>))))) =
       Some \<lparr>name = JString ''Admin''\<rparr>"
    by auto
  from bad u have b: "onLogin ((initialApp Map.empty)\<lparr>username := ''Admin'', password := ''admin''\<rparr>) =
     (initialApp Map.empty)\<lparr>username := ''Admin'', password := ''admin'',
       error := Some ''Invalid login. Use Admin / admin123.''\<rparr>"
    by simp
  from a k b show ?thesis
    by (simp only: simp_thms)
qed

theorem two_login_messages_counterexample:
  "error (onLogin ((initialApp Map.empty)\<lparr>username := [], password := []\<rparr>)) =
     Some ''Please enter username and password.'' \<and>
   error (onLogin ((initialApp Map.empty)\<lparr>username := ''Admin'', password := ''admin''\<rparr>)) =
     Some ''Invalid login. Use Admin / admin123.'' \<and>
   error (onLogin ((initialApp Map.empty)\<lparr>username := [], password := []\<rparr>)) \<noteq>
     error (onLogin ((initialApp Map.empty)\<lparr>username := ''Admin'', password := ''admin''\<rparr>))"
  by (simp add: onLogin_def initialApp_def trim_def isWhiteSpace_def)

end
